theory Spec2Isabelle
  imports Complex_Main
begin

section \<open>TileCache (src/libimg/stitcher/TileCache.cpp)\<close>

subsection \<open>Data model\<close>

text \<open>
  \<^verbatim>\<open>TileCoords\<close> is a tuple of three C++ \<^verbatim>\<open>int\<close>s \<^verbatim>\<open>(x, y, zoom)\<close>, read with
  \<^verbatim>\<open>std::get<0..2>\<close>. The cache never computes with the components (it only stores,
  compares and passes them on), so no overflow can occur and they are modelled as \<open>int\<close>.
\<close>

type_synonym tile_coords = "int \<times> int \<times> int"

text \<open>
  \<^verbatim>\<open>std::chrono::steady_clock::time_point\<close>: a count of clock ticks. The clock reading of
  an operation is passed to the operation as the argument \<open>now\<close>; every operation below
  reads the clock at most once on each path.
\<close>

type_synonym time_point = int

text \<open>
  The three ways \<^verbatim>\<open>tileSource->loadTileImage\<close> can end, as \<^verbatim>\<open>loadAndCacheTile\<close>
  distinguishes them: normal return, \<^verbatim>\<open>std::out_of_range\<close> (the first handler, commented
  "cancelled"), any other \<^verbatim>\<open>std::exception\<close> (the second handler).
\<close>

datatype 'img load_result = Loaded 'img | OutOfRange | OtherException

text \<open>The calls the cache makes on its tile source that change or depend on the source's state.\<close>

datatype source_call = CancelPendingLoads | ResumeLoading | LoadTileImage tile_coords

text \<open>
  The \<^verbatim>\<open>TileSource\<close> interface (its header is not part of the sources at hand; the
  member functions are the ones TileCache.cpp calls).
  \<^item> \<^verbatim>\<open>checkAndCorrectTileCoordinates(x, y, zoom)\<close> takes the coordinates by reference and
    returns a bool: \<open>None\<close> is \<^verbatim>\<open>false\<close>, \<open>Some c'\<close> is \<^verbatim>\<open>true\<close> with the coordinates
    corrected to \<open>c'\<close>.
  \<^item> \<^verbatim>\<open>loadTileImage\<close> may depend on what was asked of the source before (a latched
    cancellation, for example), so it receives the calls made so far, oldest first.
\<close>

record 'img tile_source =
  checkAndCorrectTileCoordinates :: "tile_coords \<Rightarrow> tile_coords option"
  getFilePathForTile :: "tile_coords \<Rightarrow> string"
  loadTileImage :: "source_call list \<Rightarrow> tile_coords \<Rightarrow> 'img load_result"

text \<open>
  What \<^verbatim>\<open>getTile\<close> can throw: the two \<^verbatim>\<open>std::runtime_error\<close>s it raises itself
  ("Invalid coordinates in getTile", "Corrupt tile"), and an exception that leaves
  \<^verbatim>\<open>Image::loadImageFile\<close>, which neither \<^verbatim>\<open>getFromDisk\<close> nor \<^verbatim>\<open>getTile\<close> catches.
\<close>

datatype error = InvalidCoordinates | CorruptTile | ImageLoadFailed

text \<open>
  The \<^verbatim>\<open>Image\<close> class is a collaborator outside the cache (libimg/Image.cpp is not part
  of the sources at hand), so its two file operations are parameters, over an abstract
  file content \<open>'file\<close>.
  \<^item> \<open>loadImageFile f\<close>: what \<^verbatim>\<open>img->loadImageFile(fileName)\<close> does on a
    default-constructed \<^verbatim>\<open>Image\<close> when the file has the content \<open>f\<close>; \<open>Some i\<close> when it
    returns, leaving the object in the state \<open>i\<close>, and \<open>None\<close> when it raises.
  \<^item> \<open>storeAndClearEncodedData img path d\<close>: the file system after
    \<^verbatim>\<open>image->storeAndClearEncodedData(path)\<close>, when it was \<open>d\<close> before.
\<close>

record ('img, 'file) image_io =
  loadImageFile :: "'file \<Rightarrow> 'img option"
  storeAndClearEncodedData :: "'img \<Rightarrow> string \<Rightarrow> (string \<rightharpoonup> 'file) \<Rightarrow> (string \<rightharpoonup> 'file)"

text \<open>
  The state of a \<^verbatim>\<open>TileCache\<close> together with the part of its environment that it reads
  and writes.
  \<^item> \<open>memoryCache\<close>: \<^verbatim>\<open>std::map<std::string, MemCacheEntry>\<close>, an entry being the pair
    (image, time stamp).
  \<^item> \<open>loadSet\<close>, \<open>errorSet\<close>: \<^verbatim>\<open>std::set<TileCoords>\<close>.
  \<^item> \<open>notified\<close>: how often \<^verbatim>\<open>cacheCondition.notify_one()\<close> has been called.
  \<^item> \<open>sourceCalls\<close>: the calls made on \<^verbatim>\<open>tileSource\<close> so far, oldest first.
  \<^item> \<open>disk\<close>: the host file system; \<^verbatim>\<open>platform::fileExists(p)\<close> is \<open>disk p \<noteq> None\<close>.
\<close>

record ('img, 'file) tile_cache =
  cacheDir :: string
  memoryCache :: "string \<rightharpoonup> ('img \<times> time_point)"
  loadSet :: "tile_coords set"
  errorSet :: "tile_coords set"
  notified :: nat
  sourceCalls :: "source_call list"
  disk :: "string \<rightharpoonup> 'file"

subsection \<open>Operations\<close>

text \<open>
  All operations run under \<^verbatim>\<open>cacheMutex\<close> (or, for the worker, in the order written), so
  each is a function from the state before to the state after. The interleaving of
  threads is not modelled.
\<close>

definition getFromMemory ::
  "'img tile_source \<Rightarrow> time_point \<Rightarrow> ('img, 'file) tile_cache \<Rightarrow> tile_coords
    \<Rightarrow> 'img option \<times> ('img, 'file) tile_cache" where
  "getFromMemory src now s c =
     (case memoryCache s (getFilePathForTile src c) of
        None \<Rightarrow> (None, s)
      | Some entry \<Rightarrow>
          (Some (fst entry),
           s\<lparr>memoryCache := (memoryCache s)(getFilePathForTile src c \<mapsto> (fst entry, now))\<rparr>))"

text \<open>\<^verbatim>\<open>std::map::insert\<close> leaves the map as it is when the key is present.\<close>

definition enterMemoryCache ::
  "'img tile_source \<Rightarrow> time_point \<Rightarrow> ('img, 'file) tile_cache \<Rightarrow> tile_coords \<Rightarrow> 'img
    \<Rightarrow> ('img, 'file) tile_cache" where
  "enterMemoryCache src now s c img =
     (case memoryCache s (getFilePathForTile src c) of
        None \<Rightarrow> s\<lparr>memoryCache := (memoryCache s)(getFilePathForTile src c \<mapsto> (img, now))\<rparr>
      | Some entry \<Rightarrow> s)"

definition getFromDisk ::
  "('img, 'file) image_io \<Rightarrow> 'img tile_source \<Rightarrow> time_point \<Rightarrow> ('img, 'file) tile_cache
    \<Rightarrow> tile_coords \<Rightarrow> (error + 'img option) \<times> ('img, 'file) tile_cache" where
  "getFromDisk io src now s c =
     (let fileName = cacheDir s @ ''/'' @ getFilePathForTile src c in
      case disk s fileName of
        None \<Rightarrow> (Inr None, s)
      | Some f \<Rightarrow>
          (case loadImageFile io f of
             None \<Rightarrow> (Inl ImageLoadFailed, s)
           | Some img \<Rightarrow> (Inr (Some img), enterMemoryCache src now s c img)))"

definition enqueue :: "('img, 'file) tile_cache \<Rightarrow> tile_coords \<Rightarrow> ('img, 'file) tile_cache" where
  "enqueue s c = s\<lparr>loadSet := insert c (loadSet s), notified := Suc (notified s)\<rparr>"

text \<open>
  \<^verbatim>\<open>getTile\<close>: \<open>Inl\<close> is a thrown exception, \<open>Inr None\<close> is \<^verbatim>\<open>nullptr\<close> (a miss),
  \<open>Inr (Some img)\<close> a hit.
\<close>

definition getTile ::
  "('img, 'file) image_io \<Rightarrow> 'img tile_source \<Rightarrow> time_point \<Rightarrow> ('img, 'file) tile_cache
    \<Rightarrow> tile_coords \<Rightarrow> (error + 'img option) \<times> ('img, 'file) tile_cache" where
  "getTile io src now s c =
     (case checkAndCorrectTileCoordinates src c of
        None \<Rightarrow> (Inl InvalidCoordinates, s)
      | Some c' \<Rightarrow>
          if c' \<in> errorSet s then (Inl CorruptTile, s)
          else
            (case getFromMemory src now s c' of
               (Some img, s1) \<Rightarrow> (Inr (Some img), s1)
             | (None, s1) \<Rightarrow>
                 (case getFromDisk io src now s1 c' of
                    (Inl e, s2) \<Rightarrow> (Inl e, s2)
                  | (Inr (Some img), s2) \<Rightarrow> (Inr (Some img), s2)
                  | (Inr None, s2) \<Rightarrow> (Inr None, enqueue s2 c'))))"

text \<open>
  \<^verbatim>\<open>loadAndCacheTile\<close>: the worker's load of one tile. The image object that enters the
  memory cache is the one handed to \<^verbatim>\<open>storeAndClearEncodedData\<close> afterwards.
\<close>

definition loadAndCacheTile ::
  "('img, 'file) image_io \<Rightarrow> 'img tile_source \<Rightarrow> time_point \<Rightarrow> ('img, 'file) tile_cache
    \<Rightarrow> tile_coords \<Rightarrow> ('img, 'file) tile_cache" where
  "loadAndCacheTile io src now s c =
     (let s0 = s\<lparr>sourceCalls := sourceCalls s @ [LoadTileImage c]\<rparr> in
      case loadTileImage src (sourceCalls s) c of
        OutOfRange \<Rightarrow> s0
      | OtherException \<Rightarrow> s0\<lparr>errorSet := insert c (errorSet s0)\<rparr>
      | Loaded img \<Rightarrow>
          (let fileName = getFilePathForTile src c;
               s1 = enterMemoryCache src now s0 c img
           in s1\<lparr>disk := storeAndClearEncodedData io img (cacheDir s1 @ ''/'' @ fileName) (disk s1)\<rparr>))"

text \<open>
  The part of one iteration of \<^verbatim>\<open>loadLoop\<close> that handles the coordinates \<open>c\<close> it has
  taken out of \<^verbatim>\<open>loadSet\<close> (the block under \<^verbatim>\<open>if (coordsValid)\<close>): the tile is loaded only
  when \<^verbatim>\<open>getFromMemory\<close> does not find it.
\<close>

definition loadLoop_coords ::
  "('img, 'file) image_io \<Rightarrow> 'img tile_source \<Rightarrow> time_point \<Rightarrow> ('img, 'file) tile_cache
    \<Rightarrow> tile_coords \<Rightarrow> ('img, 'file) tile_cache" where
  "loadLoop_coords io src now s c =
     (case getFromMemory src now s c of
        (Some img, s1) \<Rightarrow> s1
      | (None, s1) \<Rightarrow> loadAndCacheTile io src now s1 c)"

definition cancelPendingRequests :: "('img, 'file) tile_cache \<Rightarrow> ('img, 'file) tile_cache" where
  "cancelPendingRequests s =
     s\<lparr>sourceCalls := sourceCalls s @ [CancelPendingLoads], errorSet := {}, loadSet := {}\<rparr>"

definition purge :: "('img, 'file) tile_cache \<Rightarrow> ('img, 'file) tile_cache" where
  "purge s = (cancelPendingRequests s)\<lparr>memoryCache := Map.empty\<rparr>"

text \<open>
  \<^verbatim>\<open>steady_clock\<close> counts nanoseconds (its period in libstdc++ and libc++);
  \<^verbatim>\<open>duration_cast<seconds>\<close> divides the tick count by the ticks of one second and
  truncates towards zero.
\<close>

definition ticks_per_second :: int where
  "ticks_per_second = 1000000000"

definition duration_cast_seconds :: "int \<Rightarrow> int" where
  "duration_cast_seconds d =
     (if 0 \<le> d then d div ticks_per_second else - ((- d) div ticks_per_second))"

text \<open>
  \<^verbatim>\<open>flushCache\<close>: the loop visits every entry of the map once and erases it or keeps it,
  which is a filter on the map. \<^verbatim>\<open>CACHE_SECONDS\<close> is declared in TileCache.h, which is
  not part of the sources at hand, so it is the parameter \<open>cache_seconds\<close>.
\<close>

definition flushCache ::
  "int \<Rightarrow> time_point \<Rightarrow> ('img, 'file) tile_cache \<Rightarrow> ('img, 'file) tile_cache" where
  "flushCache cache_seconds now s =
     s\<lparr>memoryCache :=
         (\<lambda>path. case memoryCache s path of
                    None \<Rightarrow> None
                  | Some entry \<Rightarrow>
                      if duration_cast_seconds (now - snd entry) \<ge> cache_seconds then None
                      else Some entry)\<rparr>"

text \<open>
  \<open>getTiles\<close> is the caller that asks for the same tile again and again, with nothing
  else happening in between; \<open>nows\<close> are the clock readings of the calls.
\<close>

primrec getTiles ::
  "('img, 'file) image_io \<Rightarrow> 'img tile_source \<Rightarrow> ('img, 'file) tile_cache \<Rightarrow> tile_coords
    \<Rightarrow> time_point list \<Rightarrow> ('img, 'file) tile_cache" where
  "getTiles io src s c [] = s"
| "getTiles io src s c (now # nows) = getTiles io src (snd (getTile io src now s c)) c nows"

section \<open>Rasterizer (src/libimg/Rasterizer.cpp)\<close>

subsection \<open>The current page\<close>

text \<open>
  The display lists of the fitz context. \<open>NewDisplayList page l\<close>:
  \<^verbatim>\<open>fz_new_display_list_from_page_number(ctx, doc, page)\<close> returned the list \<open>l\<close>;
  \<open>DropDisplayList l\<close>: \<^verbatim>\<open>fz_drop_display_list(ctx, l)\<close>. A list is named by the number
  of such calls made before it was created, so no two lists share a name.
\<close>

datatype fz_event = NewDisplayList int nat | DropDisplayList nat

datatype raster_error = CannotParsePage | CannotCreatePixmap | CannotRenderPage | PageOutOfRange

text \<open>
  The members of \<^verbatim>\<open>Rasterizer\<close> that \<^verbatim>\<open>loadPage\<close> and \<^verbatim>\<open>freeCurrentPage\<close> read and write:
  \<^verbatim>\<open>currentPageNum\<close>, \<^verbatim>\<open>currentPageList\<close> (\<open>None\<close> is \<^verbatim>\<open>nullptr\<close>), and the calls made on
  the fitz context that create or drop a display list, oldest first.
\<close>

record rasterizer =
  currentPageNum :: int
  currentPageList :: "nat option"
  fitzCalls :: "fz_event list"

definition freeCurrentPage :: "rasterizer \<Rightarrow> rasterizer" where
  "freeCurrentPage r =
     (case currentPageList r of
        Some l \<Rightarrow> r\<lparr>fitzCalls := fitzCalls r @ [DropDisplayList l], currentPageList := None\<rparr>
      | None \<Rightarrow> r)"

text \<open>
  \<^verbatim>\<open>loadPage\<close>. The document is the parameter \<open>parses\<close>: whether
  \<^verbatim>\<open>fz_new_display_list_from_page_number\<close> returns for a page, or raises inside
  \<^verbatim>\<open>fz_try\<close>, in which case neither member is assigned and "Cannot parse page" is thrown.
\<close>

definition loadPage ::
  "(int \<Rightarrow> bool) \<Rightarrow> rasterizer \<Rightarrow> int \<Rightarrow> raster_error option \<times> rasterizer" where
  "loadPage parses r page =
     (if page = currentPageNum r \<and> currentPageList r \<noteq> None then (None, r)
      else
        (let r1 = freeCurrentPage r; l = length (fitzCalls r1) in
         if parses page
         then (None, r1\<lparr>fitzCalls := fitzCalls r1 @ [NewDisplayList page l],
                         currentPageList := Some l, currentPageNum := page\<rparr>)
         else (Some CannotParsePage, r1)))"

text \<open>
  \<^verbatim>\<open>loadTile\<close> calls \<^verbatim>\<open>loadPage\<close> first. What follows (the pixmap, the draw device, the
  white fill, \<^verbatim>\<open>fz_run_display_list\<close>) reads \<^verbatim>\<open>currentPageNum\<close> and \<^verbatim>\<open>currentPageList\<close>
  and neither assigns them nor creates or drops a display list; it is the parameter
  \<open>render\<close>, which yields the image or the exception thrown.
\<close>

definition loadTile ::
  "(int \<Rightarrow> bool) \<Rightarrow> (int \<Rightarrow> nat option \<Rightarrow> int \<Rightarrow> int \<Rightarrow> int \<Rightarrow> raster_error + 'img)
    \<Rightarrow> rasterizer \<Rightarrow> int \<Rightarrow> int \<Rightarrow> int \<Rightarrow> int \<Rightarrow> (raster_error + 'img) \<times> rasterizer" where
  "loadTile parses render r page x y zoom =
     (case loadPage parses r page of
        (Some e, r1) \<Rightarrow> (Inl e, r1)
      | (None, r1) \<Rightarrow> (render (currentPageNum r1) (currentPageList r1) x y zoom, r1))"

text \<open>A caller that asks for the tiles \<open>(page, x, y, zoom)\<close> of a list, one after the other.\<close>

primrec loadTiles ::
  "(int \<Rightarrow> bool) \<Rightarrow> (int \<Rightarrow> nat option \<Rightarrow> int \<Rightarrow> int \<Rightarrow> int \<Rightarrow> raster_error + 'img)
    \<Rightarrow> rasterizer \<Rightarrow> (int \<times> int \<times> int \<times> int) list \<Rightarrow> rasterizer" where
  "loadTiles parses render r [] = r"
| "loadTiles parses render r (q # qs) =
     loadTiles parses render
       (snd (loadTile parses render r (fst q) (fst (snd q)) (fst (snd (snd q))) (snd (snd (snd q)))))
       qs"

text \<open>
  The display lists that are live (created and not yet dropped) after a sequence of
  calls, and the check that at no point of a sequence more than one was live.
\<close>

primrec fz_step :: "nat set \<Rightarrow> fz_event \<Rightarrow> nat set" where
  "fz_step L (NewDisplayList page l) = insert l L"
| "fz_step L (DropDisplayList l) = L - {l}"

definition live_lists :: "fz_event list \<Rightarrow> nat set" where
  "live_lists calls = foldl fz_step {} calls"

primrec at_most_one_from :: "nat set \<Rightarrow> fz_event list \<Rightarrow> bool" where
  "at_most_one_from L [] = (card L \<le> 1)"
| "at_most_one_from L (e # es) = (card L \<le> 1 \<and> at_most_one_from (fz_step L e) es)"

definition at_most_one_live :: "fz_event list \<Rightarrow> bool" where
  "at_most_one_live calls = at_most_one_from {} calls"

text \<open>
  The invariant of a \<^verbatim>\<open>Rasterizer\<close>: the live display lists are exactly the one that
  \<^verbatim>\<open>currentPageList\<close> points to (none when it is \<^verbatim>\<open>nullptr\<close>), and there was never more
  than one.
\<close>

definition owns_live_lists :: "rasterizer \<Rightarrow> bool" where
  "owns_live_lists r =
     (live_lists (fitzCalls r) = set_option (currentPageList r) \<and> at_most_one_live (fitzCalls r))"

subsection \<open>Page dimensions\<close>







section \<open>Inputs for evaluation\<close>

text \<open>
  A tile source over images named by numbers. It rejects a negative zoom and wraps \<open>x\<close>
  into \<open>0..7\<close>; it fails on the tile \<open>(7, 7, 7)\<close>, reports a cancelled load when the last
  thing asked of it was to cancel, and loads the image \<open>42\<close> otherwise.
\<close>

definition demo_source :: "nat tile_source" where
  "demo_source =
     \<lparr>checkAndCorrectTileCoordinates =
        (\<lambda>c. if snd (snd c) < 0 then None else Some (fst c mod 8, fst (snd c), snd (snd c))),
      getFilePathForTile =
        (\<lambda>c. if c = (0, 0, 0) then ''a.png'' else if c = (1, 1, 1) then ''b.png''
              else if c = (7, 7, 7) then ''c.png'' else if c = (3, 4, 5) then ''d.png''
              else ''e.png''),
      loadTileImage =
        (\<lambda>calls c. if c = (7, 7, 7) then OtherException
                    else if calls \<noteq> [] \<and> last calls = CancelPendingLoads then OutOfRange
                    else Loaded 42)\<rparr>"

text \<open>
  Files hold numbers. \<open>strict_io\<close> decodes a file to the image of the same number and
  raises on the file \<open>0\<close>; \<open>lenient_io\<close> raises on no file and leaves the image \<open>0\<close>
  behind for the file \<open>0\<close>. Both store an image as the file of the same number.
\<close>

definition strict_io :: "(nat, nat) image_io" where
  "strict_io =
     \<lparr>loadImageFile = (\<lambda>f. if f = 0 then None else Some f),
      storeAndClearEncodedData = (\<lambda>img path d. d(path \<mapsto> img))\<rparr>"

definition lenient_io :: "(nat, nat) image_io" where
  "lenient_io =
     \<lparr>loadImageFile = (\<lambda>f. Some f),
      storeAndClearEncodedData = (\<lambda>img path d. d(path \<mapsto> img))\<rparr>"

text \<open>
  A cache with tile \<open>(1, 1, 1)\<close> in memory (image \<open>11\<close>, stamped at tick \<open>0\<close>), tile
  \<open>(7, 7, 7)\<close> marked as failed, a good file for tile \<open>(3, 4, 5)\<close> and an undecodable file
  (content \<open>0\<close>) for tile \<open>(2, 2, 2)\<close>.
\<close>

definition demo_cache :: "(nat, nat) tile_cache" where
  "demo_cache =
     \<lparr>cacheDir = ''cache'',
      memoryCache = [''b.png'' \<mapsto> (11, 0)],
      loadSet = {},
      errorSet = {(7, 7, 7)},
      notified = 0,
      sourceCalls = [],
      disk = [''cache/d.png'' \<mapsto> 33, ''cache/e.png'' \<mapsto> 0]\<rparr>"

text \<open>
  A document of three pages, a renderer that returns the image \<open>0\<close> whenever there
  is a page list, and a rasterizer that has page \<open>0\<close> loaded as its first display list.
\<close>

definition three_pages :: "int \<Rightarrow> bool" where
  "three_pages page = (0 \<le> page \<and> page < 3)"

definition blank_render :: "int \<Rightarrow> nat option \<Rightarrow> int \<Rightarrow> int \<Rightarrow> int \<Rightarrow> raster_error + nat" where
  "blank_render page l x y zoom = (case l of None \<Rightarrow> Inl CannotRenderPage | Some h \<Rightarrow> Inr 0)"

definition page0_rasterizer :: rasterizer where
  "page0_rasterizer =
     \<lparr>currentPageNum = 0, currentPageList = Some 0, fitzCalls = [NewDisplayList 0 0]\<rparr>"

text \<open>A rasterizer that holds no page list and has made no fitz call yet.\<close>

definition fresh_rasterizer :: rasterizer where
  "fresh_rasterizer = \<lparr>currentPageNum = 0, currentPageList = None, fitzCalls = []\<rparr>"



section \<open>Properties of TileCache\<close>

subsection \<open>Auxiliary facts\<close>

text \<open>
  A full miss: the corrected coordinates are not marked as failed, their path is not in
  the memory cache and there is no file for them. Then \<^verbatim>\<open>getTile\<close> only enqueues, and
  the state after the call is again a full miss for the same coordinates.
\<close>

lemma full_miss_getTile:
  assumes "checkAndCorrectTileCoordinates src c = Some c'"
    and "c' \<notin> errorSet s"
    and "memoryCache s (getFilePathForTile src c') = None"
    and "disk s (cacheDir s @ ''/'' @ getFilePathForTile src c') = None"
  shows "getTile io src now s c =
          (Inr None, s\<lparr>loadSet := insert c' (loadSet s), notified := Suc (notified s)\<rparr>)"
  using assms by (simp add: getTile_def getFromMemory_def getFromDisk_def enqueue_def)

lemma full_miss_getTiles:
  assumes "checkAndCorrectTileCoordinates src c = Some c'"
    and "c' \<notin> errorSet s"
    and "memoryCache s (getFilePathForTile src c') = None"
    and "disk s (cacheDir s @ ''/'' @ getFilePathForTile src c') = None"
  shows "getTiles io src s c nows =
          (if nows = [] then s
           else s\<lparr>loadSet := insert c' (loadSet s), notified := notified s + length nows\<rparr>)"
  using assms
proof (induction nows arbitrary: s)
  case Nil
  then show ?case by simp
next
  case (Cons now nows)
  let ?s1 = "s\<lparr>loadSet := insert c' (loadSet s), notified := Suc (notified s)\<rparr>"
  have step: "getTile io src now s c = (Inr None, ?s1)"
    using Cons.prems by (rule full_miss_getTile)
  have "getTiles io src ?s1 c nows =
          (if nows = [] then ?s1
           else ?s1\<lparr>loadSet := insert c' (loadSet ?s1), notified := notified ?s1 + length nows\<rparr>)"
    using Cons.prems by (intro Cons.IH) simp_all
  then show ?case by (simp add: step)
qed

lemma int_div_less_iff:
  fixes d k c :: int
  assumes "0 < k"
  shows "(d div k < c) = (d < c * k)"
proof -
  have split: "d div k * k + d mod k = d"
    by (rule div_mult_mod_eq)
  have lower: "0 \<le> d mod k" and upper: "d mod k < k"
    using assms by simp_all
  show ?thesis
  proof
    assume "d div k < c"
    then have "d div k + 1 \<le> c" by simp
    then have "(d div k + 1) * k \<le> c * k"
      using assms by (simp add: mult_right_mono)
    then have "d div k * k + k \<le> c * k"
      by (simp add: distrib_right)
    then show "d < c * k"
      using split upper by linarith
  next
    assume lt: "d < c * k"
    show "d div k < c"
    proof (rule ccontr)
      assume "\<not> d div k < c"
      then have "c \<le> d div k" by simp
      then have "c * k \<le> d div k * k"
        using assms by (simp add: mult_right_mono)
      then show False
        using split lower lt by linarith
    qed
  qed
qed

lemma duration_cast_seconds_less_iff:
  assumes "0 \<le> d"
  shows "(duration_cast_seconds d < cs) = (d < cs * ticks_per_second)"
proof -
  have "0 < ticks_per_second" by (simp add: ticks_per_second_def)
  then show ?thesis
    using assms by (simp add: duration_cast_seconds_def int_div_less_iff)
qed

subsection \<open>purge and cancelPendingRequests\<close>

text \<open>
  C1. After \<^verbatim>\<open>purge()\<close> the memory cache, the load set and the error set are all empty,
  and \<^verbatim>\<open>TileSource::cancelPendingLoads\<close> has been called once more (and nothing else has
  been asked of the source); the disk and the cache directory are untouched.
\<close>

theorem purge_clears_everything:
  "memoryCache (purge s) = Map.empty \<and> loadSet (purge s) = {} \<and> errorSet (purge s) = {}
   \<and> sourceCalls (purge s) = sourceCalls s @ [CancelPendingLoads]
   \<and> disk (purge s) = disk s \<and> cacheDir (purge s) = cacheDir s"
  by (simp add: purge_def cancelPendingRequests_def)

text \<open>
  C5. After \<^verbatim>\<open>cancelPendingRequests()\<close> the load set and the error set are empty and
  \<^verbatim>\<open>TileSource::cancelPendingLoads\<close> has been called once more, while the memory cache is
  the same map as before: the same keys with the same images and the same time stamps.
\<close>

theorem cancelPendingRequests_keeps_memoryCache:
  "loadSet (cancelPendingRequests s) = {} \<and> errorSet (cancelPendingRequests s) = {}
   \<and> sourceCalls (cancelPendingRequests s) = sourceCalls s @ [CancelPendingLoads]
   \<and> memoryCache (cancelPendingRequests s) = memoryCache s"
  by (simp add: cancelPendingRequests_def)

subsection \<open>The worker\<close>

text \<open>
  C2. Let the worker handle coordinates \<open>c\<close> that it took from the load set and whose
  path \<^verbatim>\<open>getFromMemory\<close> does not find, so that it calls \<^verbatim>\<open>loadTileImage\<close>.
  \<^item> If the load signals a cancellation (\<^verbatim>\<open>std::out_of_range\<close>), the error set, the memory
    cache, the load set and the disk are as before.
  \<^item> If it fails with any other exception, \<open>c\<close> is added to the error set, and the memory
    cache and the disk are as before.
  \<^item> If it returns an image, the image is entered in the memory cache under the path of
    \<open>c\<close> with the time stamp \<open>now\<close>, the error set is as before, and the image is handed
    to \<^verbatim>\<open>storeAndClearEncodedData\<close> with the file name \<^verbatim>\<open>cacheDir + "/" + path\<close>.
\<close>

theorem worker_load_outcomes:
  assumes "memoryCache s (getFilePathForTile src c) = None"
  shows "(loadTileImage src (sourceCalls s) c = OutOfRange \<longrightarrow>
            errorSet (loadLoop_coords io src now s c) = errorSet s
          \<and> memoryCache (loadLoop_coords io src now s c) = memoryCache s
          \<and> loadSet (loadLoop_coords io src now s c) = loadSet s
          \<and> disk (loadLoop_coords io src now s c) = disk s)
       \<and> (loadTileImage src (sourceCalls s) c = OtherException \<longrightarrow>
            errorSet (loadLoop_coords io src now s c) = insert c (errorSet s)
          \<and> memoryCache (loadLoop_coords io src now s c) = memoryCache s
          \<and> disk (loadLoop_coords io src now s c) = disk s)
       \<and> (loadTileImage src (sourceCalls s) c = Loaded img \<longrightarrow>
            memoryCache (loadLoop_coords io src now s c)
              = (memoryCache s)(getFilePathForTile src c \<mapsto> (img, now))
          \<and> errorSet (loadLoop_coords io src now s c) = errorSet s
          \<and> disk (loadLoop_coords io src now s c)
              = storeAndClearEncodedData io img
                  (cacheDir s @ ''/'' @ getFilePathForTile src c) (disk s))"
  using assms
  by (simp add: loadLoop_coords_def getFromMemory_def loadAndCacheTile_def enterMemoryCache_def
      Let_def)

theorem worker_load_outcomes_witness:
  "memoryCache demo_cache (getFilePathForTile demo_source (0, 0, 0)) = None
   \<and> loadTileImage demo_source (sourceCalls (cancelPendingRequests demo_cache)) (0, 0, 0) = OutOfRange
   \<and> errorSet (loadLoop_coords strict_io demo_source 5 (cancelPendingRequests demo_cache) (0, 0, 0)) = {}
   \<and> memoryCache (loadLoop_coords strict_io demo_source 5 (cancelPendingRequests demo_cache) (0, 0, 0))
       = memoryCache demo_cache
   \<and> memoryCache demo_cache (getFilePathForTile demo_source (7, 7, 7)) = None
   \<and> loadTileImage demo_source (sourceCalls (purge demo_cache)) (7, 7, 7) = OtherException
   \<and> errorSet (loadLoop_coords strict_io demo_source 5 (purge demo_cache) (7, 7, 7)) = {(7, 7, 7)}
   \<and> memoryCache (loadLoop_coords strict_io demo_source 5 (purge demo_cache) (7, 7, 7)) = Map.empty
   \<and> loadTileImage demo_source (sourceCalls demo_cache) (0, 0, 0) = Loaded 42
   \<and> memoryCache (loadLoop_coords strict_io demo_source 5 demo_cache (0, 0, 0))
       = [''b.png'' \<mapsto> (11, 0), ''a.png'' \<mapsto> (42, 5)]
   \<and> errorSet (loadLoop_coords strict_io demo_source 5 demo_cache (0, 0, 0)) = {(7, 7, 7)}
   \<and> disk (loadLoop_coords strict_io demo_source 5 demo_cache (0, 0, 0)) ''cache/a.png'' = Some 42"
proof -
  have path: "getFilePathForTile demo_source (0, 0, 0) = ''a.png''"
    "getFilePathForTile demo_source (7, 7, 7) = ''c.png''"
    by (simp_all add: demo_source_def)
  have fields: "memoryCache demo_cache = [''b.png'' \<mapsto> (11, 0)]" "sourceCalls demo_cache = []"
    "errorSet demo_cache = {(7, 7, 7)}" "cacheDir demo_cache = ''cache''"
    by (simp_all add: demo_cache_def)
  have load: "loadTileImage demo_source [CancelPendingLoads] (0, 0, 0) = OutOfRange"
    "loadTileImage demo_source [CancelPendingLoads] (7, 7, 7) = OtherException"
    "loadTileImage demo_source [] (0, 0, 0) = Loaded 42"
    by (simp_all add: demo_source_def)
  have store: "storeAndClearEncodedData strict_io = (\<lambda>img path d. d(path \<mapsto> img))"
    by (simp add: strict_io_def)
  have cancelled: "memoryCache (cancelPendingRequests demo_cache) = [''b.png'' \<mapsto> (11, 0)]"
    "sourceCalls (cancelPendingRequests demo_cache) = [CancelPendingLoads]"
    "errorSet (cancelPendingRequests demo_cache) = {}"
    by (simp_all add: cancelPendingRequests_def fields)
  have purged: "memoryCache (purge demo_cache) = Map.empty"
    "sourceCalls (purge demo_cache) = [CancelPendingLoads]"
    "errorSet (purge demo_cache) = {}"
    by (simp_all add: purge_def cancelPendingRequests_def fields)
  show ?thesis
    using
      worker_load_outcomes [where s = "cancelPendingRequests demo_cache" and src = demo_source
        and c = "(0, 0, 0)" and img = 42 and io = strict_io and now = 5]
      worker_load_outcomes [where s = "purge demo_cache" and src = demo_source
        and c = "(7, 7, 7)" and img = 42 and io = strict_io and now = 5]
      worker_load_outcomes [where s = demo_cache and src = demo_source
        and c = "(0, 0, 0)" and img = 42 and io = strict_io and now = 5]
    by (simp add: path fields load store cancelled purged)
qed

text \<open>
  C10. When the path of the coordinates already has an entry in the memory cache,
  \<^verbatim>\<open>enterMemoryCache\<close> changes nothing: the entry keeps its image and its time stamp, and
  the new image and time stamp are dropped. So the memory cache is the same after
  \<^verbatim>\<open>getFromDisk\<close> and after \<^verbatim>\<open>loadAndCacheTile\<close>, the two callers, whatever they read or
  load.
\<close>

theorem enterMemoryCache_keeps_existing_entry:
  assumes "memoryCache s (getFilePathForTile src c) = Some entry"
  shows "enterMemoryCache src now s c img = s
         \<and> memoryCache (snd (getFromDisk io src now s c)) = memoryCache s
         \<and> memoryCache (loadAndCacheTile io src now s c) = memoryCache s"
  using assms
  by (simp add: enterMemoryCache_def getFromDisk_def loadAndCacheTile_def Let_def
      split: option.splits load_result.splits)

theorem enterMemoryCache_keeps_existing_entry_witness:
  "memoryCache demo_cache (getFilePathForTile demo_source (1, 1, 1)) = Some (11, 0)
   \<and> enterMemoryCache demo_source 5 demo_cache (1, 1, 1) 99 = demo_cache
   \<and> memoryCache (snd (getFromDisk strict_io demo_source 5 demo_cache (1, 1, 1))) ''b.png'' = Some (11, 0)
   \<and> memoryCache (loadAndCacheTile strict_io demo_source 5 demo_cache (1, 1, 1)) ''b.png'' = Some (11, 0)"
proof -
  have present: "memoryCache demo_cache (getFilePathForTile demo_source (1, 1, 1)) = Some (11, 0)"
    by (simp add: demo_cache_def demo_source_def)
  have entry: "memoryCache demo_cache ''b.png'' = Some (11, 0)"
    by (simp add: demo_cache_def)
  show ?thesis
    using present entry
      enterMemoryCache_keeps_existing_entry [OF present, where now = 5 and img = 99 and io = strict_io]
    by simp
qed

subsection \<open>getTile\<close>

text \<open>
  C3. If the coordinates are accepted by \<^verbatim>\<open>checkAndCorrectTileCoordinates\<close> and the
  corrected coordinates are in the error set, \<^verbatim>\<open>getTile\<close> throws "Corrupt tile" and
  leaves the whole state as it is: no time stamp is refreshed, nothing enters the memory
  cache and nothing is enqueued. The outcome is the same whatever the memory cache and
  the disk hold.
\<close>

theorem getTile_errored_is_CorruptTile:
  assumes "checkAndCorrectTileCoordinates src c = Some c'" and "c' \<in> errorSet s"
  shows "getTile io src now s c = (Inl CorruptTile, s)
         \<and> fst (getTile io src now (s\<lparr>memoryCache := m, disk := d\<rparr>) c) = Inl CorruptTile"
  using assms by (simp add: getTile_def)

theorem getTile_errored_is_CorruptTile_witness:
  "checkAndCorrectTileCoordinates demo_source (15, 7, 7) = Some (7, 7, 7)
   \<and> (7, 7, 7) \<in> errorSet demo_cache
   \<and> getTile strict_io demo_source 5 demo_cache (15, 7, 7) = (Inl CorruptTile, demo_cache)
   \<and> fst (getTile strict_io demo_source 5
            (demo_cache\<lparr>memoryCache := [''c.png'' \<mapsto> (9, 1)], disk := [''cache/c.png'' \<mapsto> 9]\<rparr>)
            (15, 7, 7)) = Inl CorruptTile"
proof -
  have norm: "checkAndCorrectTileCoordinates demo_source (15, 7, 7) = Some (7, 7, 7)"
    by (simp add: demo_source_def)
  have err: "(7, 7, 7) \<in> errorSet demo_cache"
    by (simp add: demo_cache_def)
  show ?thesis
    using norm err getTile_errored_is_CorruptTile [OF norm err] by simp
qed

text \<open>
  C7. On a full miss \<^verbatim>\<open>getTile\<close> returns \<^verbatim>\<open>nullptr\<close>, inserts the corrected coordinates
  into the load set, notifies the condition variable once, and asks nothing of the tile
  source (in particular it does not call \<^verbatim>\<open>loadTileImage\<close>). After any number of such
  calls in a row, at least one, the load set is the old load set with the one element
  inserted, each call has notified once, and the tile source has still not been called.
\<close>

theorem getTile_full_miss_enqueues_once:
  assumes "checkAndCorrectTileCoordinates src c = Some c'"
    and "c' \<notin> errorSet s"
    and "memoryCache s (getFilePathForTile src c') = None"
    and "disk s (cacheDir s @ ''/'' @ getFilePathForTile src c') = None"
  shows "getTile io src now s c =
           (Inr None, s\<lparr>loadSet := insert c' (loadSet s), notified := Suc (notified s)\<rparr>)
         \<and> sourceCalls (snd (getTile io src now s c)) = sourceCalls s
         \<and> loadSet (getTiles io src s c (now # nows)) = insert c' (loadSet s)
         \<and> notified (getTiles io src s c (now # nows)) = notified s + length (now # nows)
         \<and> sourceCalls (getTiles io src s c (now # nows)) = sourceCalls s"
  using full_miss_getTile [OF assms] full_miss_getTiles [OF assms, of io "now # nows"]
  by simp

theorem getTile_full_miss_enqueues_once_witness:
  "checkAndCorrectTileCoordinates demo_source (8, 0, 0) = Some (0, 0, 0)
   \<and> (0, 0, 0) \<notin> errorSet demo_cache
   \<and> memoryCache demo_cache (getFilePathForTile demo_source (0, 0, 0)) = None
   \<and> disk demo_cache (cacheDir demo_cache @ ''/'' @ getFilePathForTile demo_source (0, 0, 0)) = None
   \<and> fst (getTile strict_io demo_source 5 demo_cache (8, 0, 0)) = Inr None
   \<and> loadSet (snd (getTile strict_io demo_source 5 demo_cache (8, 0, 0))) = {(0, 0, 0)}
   \<and> notified (snd (getTile strict_io demo_source 5 demo_cache (8, 0, 0))) = 1
   \<and> sourceCalls (snd (getTile strict_io demo_source 5 demo_cache (8, 0, 0))) = []
   \<and> loadSet (getTiles strict_io demo_source demo_cache (8, 0, 0) [5, 6, 7]) = {(0, 0, 0)}
   \<and> notified (getTiles strict_io demo_source demo_cache (8, 0, 0) [5, 6, 7]) = 3"
proof -
  have norm: "checkAndCorrectTileCoordinates demo_source (8, 0, 0) = Some (0, 0, 0)"
    by (simp add: demo_source_def)
  have err: "(0, 0, 0) \<notin> errorSet demo_cache"
    by (simp add: demo_cache_def)
  have mem: "memoryCache demo_cache (getFilePathForTile demo_source (0, 0, 0)) = None"
    by (simp add: demo_cache_def demo_source_def)
  have dsk: "disk demo_cache (cacheDir demo_cache @ ''/'' @ getFilePathForTile demo_source (0, 0, 0)) = None"
    by (simp add: demo_cache_def demo_source_def)
  have init: "loadSet demo_cache = {}" "notified demo_cache = 0" "sourceCalls demo_cache = []"
    by (simp_all add: demo_cache_def)
  show ?thesis
    using norm err mem dsk
      getTile_full_miss_enqueues_once [OF norm err mem dsk, of strict_io 5 "[6, 7]"]
    by (simp add: init del: getTiles.simps)
qed

text \<open>
  C4, as stated, fails. The file of tile \<open>(2, 2, 2)\<close> exists and cannot be decoded.
  \<^verbatim>\<open>getFromDisk\<close> does not look at how \<^verbatim>\<open>loadImageFile\<close> ends. When it raises, the
  exception leaves \<^verbatim>\<open>getTile\<close>; when it returns, the image object it leaves behind enters
  the memory cache and is returned as a hit. In neither case is the call a miss, and in
  neither case are the coordinates enqueued.
\<close>

theorem getTile_undecodable_file_counterexample:
  "disk demo_cache (cacheDir demo_cache @ ''/'' @ getFilePathForTile demo_source (2, 2, 2)) = Some 0
   \<and> loadImageFile strict_io 0 = None
   \<and> getTile strict_io demo_source 5 demo_cache (2, 2, 2) = (Inl ImageLoadFailed, demo_cache)
   \<and> loadImageFile lenient_io 0 = Some 0
   \<and> fst (getTile lenient_io demo_source 5 demo_cache (2, 2, 2)) = Inr (Some 0)
   \<and> memoryCache (snd (getTile lenient_io demo_source 5 demo_cache (2, 2, 2))) ''e.png'' = Some (0, 5)
   \<and> memoryCache demo_cache ''e.png'' = None
   \<and> (2, 2, 2) \<notin> loadSet (snd (getTile lenient_io demo_source 5 demo_cache (2, 2, 2)))"
  by (simp add: getTile_def getFromMemory_def getFromDisk_def enterMemoryCache_def
      demo_cache_def demo_source_def strict_io_def lenient_io_def)

text \<open>
  C4, amended. If the corrected coordinates are not marked as failed, their path is not
  in the memory cache and their file exists, then the outcome of \<^verbatim>\<open>getTile\<close> is decided
  by \<^verbatim>\<open>loadImageFile\<close> alone: when it raises, \<^verbatim>\<open>getTile\<close> throws and the state is
  unchanged; when it returns, the image is entered in the memory cache under the path
  with the time stamp \<open>now\<close> and returned. The call is never a miss, and the load set and
  the error set are as before.
\<close>

theorem getTile_file_present:
  assumes "checkAndCorrectTileCoordinates src c = Some c'"
    and "c' \<notin> errorSet s"
    and "memoryCache s (getFilePathForTile src c') = None"
    and "disk s (cacheDir s @ ''/'' @ getFilePathForTile src c') = Some f"
  shows "getTile io src now s c =
           (case loadImageFile io f of
              None \<Rightarrow> (Inl ImageLoadFailed, s)
            | Some img \<Rightarrow>
                (Inr (Some img),
                 s\<lparr>memoryCache := (memoryCache s)(getFilePathForTile src c' \<mapsto> (img, now))\<rparr>))
         \<and> fst (getTile io src now s c) \<noteq> Inr None
         \<and> loadSet (snd (getTile io src now s c)) = loadSet s
         \<and> errorSet (snd (getTile io src now s c)) = errorSet s"
  using assms
  by (simp add: getTile_def getFromMemory_def getFromDisk_def enterMemoryCache_def
      split: option.splits)

theorem getTile_file_present_witness:
  "checkAndCorrectTileCoordinates demo_source (3, 4, 5) = Some (3, 4, 5)
   \<and> (3, 4, 5) \<notin> errorSet demo_cache
   \<and> memoryCache demo_cache (getFilePathForTile demo_source (3, 4, 5)) = None
   \<and> disk demo_cache (cacheDir demo_cache @ ''/'' @ getFilePathForTile demo_source (3, 4, 5)) = Some 33
   \<and> getTile strict_io demo_source 5 demo_cache (3, 4, 5) =
       (Inr (Some 33), demo_cache\<lparr>memoryCache := [''b.png'' \<mapsto> (11, 0), ''d.png'' \<mapsto> (33, 5)]\<rparr>)
   \<and> loadSet (snd (getTile strict_io demo_source 5 demo_cache (3, 4, 5))) = {}"
proof -
  have norm: "checkAndCorrectTileCoordinates demo_source (3, 4, 5) = Some (3, 4, 5)"
    by (simp add: demo_source_def)
  have err: "(3, 4, 5) \<notin> errorSet demo_cache"
    by (simp add: demo_cache_def)
  have mem: "memoryCache demo_cache (getFilePathForTile demo_source (3, 4, 5)) = None"
    by (simp add: demo_cache_def demo_source_def)
  have dsk: "disk demo_cache (cacheDir demo_cache @ ''/'' @ getFilePathForTile demo_source (3, 4, 5)) = Some 33"
    by (simp add: demo_cache_def demo_source_def)
  have more: "loadImageFile strict_io 33 = Some 33" "loadSet demo_cache = {}"
    "getFilePathForTile demo_source (3, 4, 5) = ''d.png''"
    "memoryCache demo_cache = [''b.png'' \<mapsto> (11, 0)]"
    by (simp_all add: strict_io_def demo_cache_def demo_source_def)
  show ?thesis
    using norm err mem dsk
      getTile_file_present [OF norm err mem dsk, where io = strict_io and now = 5]
    by (simp add: more)
qed

text \<open>
  C6. \<^verbatim>\<open>flushCache\<close>, called with the clock at \<open>T\<close>, keeps an entry stamped \<open>t\<close> (with
  \<open>t \<le> T\<close>, the clock being steady) if and only if less than \<^verbatim>\<open>CACHE_SECONDS\<close> seconds
  have passed, that is \<open>T - t < CACHE_SECONDS * ticks_per_second\<close>, and erases it
  otherwise. And a \<^verbatim>\<open>getTile\<close> that finds the path in the memory cache returns the image
  of the entry and stamps the entry with the time of the read.
\<close>

theorem flushCache_retains_iff_young:
  "(memoryCache s path = Some (img, t) \<and> t \<le> T \<longrightarrow>
      (memoryCache (flushCache cache_seconds T s) path = Some (img, t))
        = (T - t < cache_seconds * ticks_per_second)
    \<and> (memoryCache (flushCache cache_seconds T s) path = None)
        = (\<not> T - t < cache_seconds * ticks_per_second))
   \<and> (checkAndCorrectTileCoordinates src c = Some c' \<and> c' \<notin> errorSet s
      \<and> memoryCache s (getFilePathForTile src c') = Some (img, t) \<longrightarrow>
      getTile io src now s c =
        (Inr (Some img),
         s\<lparr>memoryCache := (memoryCache s)(getFilePathForTile src c' \<mapsto> (img, now))\<rparr>))"
proof (intro conjI impI)
  assume a: "memoryCache s path = Some (img, t) \<and> t \<le> T"
  then have young: "(duration_cast_seconds (T - t) < cache_seconds)
      = (T - t < cache_seconds * ticks_per_second)"
    by (simp add: duration_cast_seconds_less_iff)
  show "(memoryCache (flushCache cache_seconds T s) path = Some (img, t))
        = (T - t < cache_seconds * ticks_per_second)"
    using a young by (auto simp: flushCache_def)
  show "(memoryCache (flushCache cache_seconds T s) path = None)
        = (\<not> T - t < cache_seconds * ticks_per_second)"
    using a young by (auto simp: flushCache_def)
next
  assume "checkAndCorrectTileCoordinates src c = Some c' \<and> c' \<notin> errorSet s
      \<and> memoryCache s (getFilePathForTile src c') = Some (img, t)"
  then show "getTile io src now s c =
        (Inr (Some img),
         s\<lparr>memoryCache := (memoryCache s)(getFilePathForTile src c' \<mapsto> (img, now))\<rparr>)"
    by (simp add: getTile_def getFromMemory_def)
qed

theorem flushCache_retains_iff_young_witness:
  "memoryCache demo_cache ''b.png'' = Some (11, 0)
   \<and> memoryCache (flushCache 30 29999999999 demo_cache) ''b.png'' = Some (11, 0)
   \<and> memoryCache (flushCache 30 30000000000 demo_cache) ''b.png'' = None
   \<and> checkAndCorrectTileCoordinates demo_source (9, 1, 1) = Some (1, 1, 1)
   \<and> (1, 1, 1) \<notin> errorSet demo_cache
   \<and> memoryCache demo_cache (getFilePathForTile demo_source (1, 1, 1)) = Some (11, 0)
   \<and> fst (getTile strict_io demo_source 29999999999 demo_cache (9, 1, 1)) = Inr (Some 11)
   \<and> memoryCache (snd (getTile strict_io demo_source 29999999999 demo_cache (9, 1, 1))) ''b.png''
       = Some (11, 29999999999)
   \<and> memoryCache
        (flushCache 30 30000000000 (snd (getTile strict_io demo_source 29999999999 demo_cache (9, 1, 1))))
        ''b.png'' = Some (11, 29999999999)"
proof -
  have entry: "memoryCache demo_cache ''b.png'' = Some (11, 0)"
    by (simp add: demo_cache_def)
  have norm: "checkAndCorrectTileCoordinates demo_source (9, 1, 1) = Some (1, 1, 1)"
    "(1, 1, 1) \<notin> errorSet demo_cache" "getFilePathForTile demo_source (1, 1, 1) = ''b.png''"
    by (simp_all add: demo_source_def demo_cache_def)
  have tps: "ticks_per_second = 1000000000"
    by (simp add: ticks_per_second_def)
  note young = flushCache_retains_iff_young
    [where s = demo_cache and path = "''b.png''" and img = 11 and t = 0 and T = 29999999999
      and cache_seconds = 30 and src = demo_source and c = "(9, 1, 1)" and c' = "(1, 1, 1)"
      and io = strict_io and now = 29999999999]
  note old = flushCache_retains_iff_young
    [where s = demo_cache and path = "''b.png''" and img = 11 and t = 0 and T = 30000000000
      and cache_seconds = 30 and src = demo_source and c = "(9, 1, 1)" and c' = "(1, 1, 1)"
      and io = strict_io and now = 29999999999]
  note again = flushCache_retains_iff_young
    [where s = "snd (getTile strict_io demo_source 29999999999 demo_cache (9, 1, 1))"
      and path = "''b.png''" and img = 11 and t = 29999999999 and T = 30000000000
      and cache_seconds = 30 and src = demo_source and c = "(9, 1, 1)" and c' = "(1, 1, 1)"
      and io = strict_io and now = 29999999999]
  show ?thesis
    using young old again by (simp add: entry norm tps)
qed

section \<open>Properties of the Rasterizer\<close>

subsection \<open>Auxiliary facts\<close>

lemma at_most_one_from_snoc:
  "at_most_one_from L (es @ [e]) =
     (at_most_one_from L es \<and> card (foldl fz_step L (es @ [e])) \<le> 1)"
  by (induction es arbitrary: L) auto

lemma at_most_one_live_snoc:
  "at_most_one_live (es @ [e]) = (at_most_one_live es \<and> card (live_lists (es @ [e])) \<le> 1)"
  by (simp only: at_most_one_live_def live_lists_def at_most_one_from_snoc)

lemma at_most_one_from_prefix:
  "at_most_one_from L es \<Longrightarrow> n \<le> length es \<Longrightarrow> card (foldl fz_step L (take n es)) \<le> 1"
proof (induction es arbitrary: L n)
  case Nil
  then show ?case by simp
next
  case (Cons e es)
  then show ?case by (cases n) auto
qed

lemma owns_freeCurrentPage:
  "owns_live_lists r \<Longrightarrow>
   owns_live_lists (freeCurrentPage r) \<and> currentPageList (freeCurrentPage r) = None"
  by (auto simp: owns_live_lists_def freeCurrentPage_def at_most_one_live_snoc live_lists_def
      split: option.splits)

lemma owns_loadPage:
  assumes "owns_live_lists r"
  shows "owns_live_lists (snd (loadPage parses r page))"
proof -
  have free: "owns_live_lists (freeCurrentPage r)" "currentPageList (freeCurrentPage r) = None"
    using owns_freeCurrentPage [OF assms] by simp_all
  then show ?thesis
    using assms
    by (auto simp: loadPage_def Let_def owns_live_lists_def at_most_one_live_snoc live_lists_def)
qed

lemma snd_loadTile: "snd (loadTile parses render r page x y zoom) = snd (loadPage parses r page)"
  by (simp add: loadTile_def split: prod.splits option.splits)

lemma owns_loadTiles:
  "owns_live_lists r \<Longrightarrow> owns_live_lists (loadTiles parses render r qs)"
  by (induction qs arbitrary: r) (simp_all add: snd_loadTile owns_loadPage)

lemma loadTile_same_page:
  "page = currentPageNum r \<and> currentPageList r \<noteq> None \<Longrightarrow>
   loadTile parses render r page x y zoom = (render page (currentPageList r) x y zoom, r)"
  by (simp add: loadTile_def loadPage_def)

lemma length_freeCurrentPage:
  "length (fitzCalls (freeCurrentPage r))
     = length (fitzCalls r) + (case currentPageList r of None \<Rightarrow> 0 | Some l \<Rightarrow> 1)"
  by (simp add: freeCurrentPage_def split: option.splits)

lemma loadTile_builds:
  assumes "\<not> (page = currentPageNum r \<and> currentPageList r \<noteq> None) \<and> parses page"
  shows "loadTile parses render r page x y zoom
           = (render page (Some (length (fitzCalls (freeCurrentPage r)))) x y zoom,
              r\<lparr>currentPageNum := page,
                currentPageList := Some (length (fitzCalls (freeCurrentPage r))),
                fitzCalls :=
                  fitzCalls r
                  @ (case currentPageList r of None \<Rightarrow> [] | Some l \<Rightarrow> [DropDisplayList l])
                  @ [NewDisplayList page (length (fitzCalls (freeCurrentPage r)))]\<rparr>)"
  using assms
  by (auto simp: loadTile_def loadPage_def freeCurrentPage_def Let_def split: option.splits)

lemma loadTile_cannot_parse:
  assumes "\<not> (page = currentPageNum r \<and> currentPageList r \<noteq> None) \<and> \<not> parses page"
  shows "loadTile parses render r page x y zoom
           = (Inl CannotParsePage,
              r\<lparr>currentPageList := None,
                fitzCalls :=
                  fitzCalls r
                  @ (case currentPageList r of None \<Rightarrow> [] | Some l \<Rightarrow> [DropDisplayList l])\<rparr>)"
  using assms
  by (auto simp: loadTile_def loadPage_def freeCurrentPage_def Let_def split: option.splits)

lemma loadTile_loaded:
  assumes "parses page"
  shows "currentPageNum (snd (loadTile parses render r page x y zoom)) = page
       \<and> currentPageList (snd (loadTile parses render r page x y zoom)) \<noteq> None"
  using assms by (simp add: snd_loadTile loadPage_def Let_def)

subsection \<open>One live display list\<close>

text \<open>
  C9. Start from a rasterizer whose only live display list, if any, is the one
  \<^verbatim>\<open>currentPageList\<close> points to. Then after any sequence of \<^verbatim>\<open>loadTile\<close> calls this is
  still so, and at every point of the sequence of fitz calls made up to then at most one
  display list was live.
  \<^item> A \<^verbatim>\<open>loadTile\<close> for the current page, with a page list present, renders from that
    list and leaves the rasterizer as it is: no list is created or dropped.
  \<^item> Any other \<^verbatim>\<open>loadTile\<close> (another page, or no list present) first drops the list it
    has, if any, and only then creates the new one; the new list and the page become
    the current ones and the tile is rendered from the new list. When the page does not
    parse, "Cannot parse page" is thrown and the rasterizer is left without a list.
  \<^item> After a \<^verbatim>\<open>loadTile\<close> for a page that parses, a second \<^verbatim>\<open>loadTile\<close> for the same page
    finds the list of the first and leaves the rasterizer as it is: all tiles of a page
    asked for in a row are rendered from one list.
\<close>

theorem rasterizer_one_live_display_list:
  assumes "owns_live_lists r"
  shows "owns_live_lists (loadTiles parses render r qs)
     \<and> (\<forall>n \<le> length (fitzCalls (loadTiles parses render r qs)).
           card (live_lists (take n (fitzCalls (loadTiles parses render r qs)))) \<le> 1)
     \<and> (page = currentPageNum r \<and> currentPageList r \<noteq> None \<longrightarrow>
           loadTile parses render r page x y zoom
             = (render page (currentPageList r) x y zoom, r))
     \<and> (\<not> (page = currentPageNum r \<and> currentPageList r \<noteq> None) \<and> parses page \<longrightarrow>
           loadTile parses render r page x y zoom
             = (render page (Some (length (fitzCalls (freeCurrentPage r)))) x y zoom,
                r\<lparr>currentPageNum := page,
                  currentPageList := Some (length (fitzCalls (freeCurrentPage r))),
                  fitzCalls :=
                    fitzCalls r
                    @ (case currentPageList r of None \<Rightarrow> [] | Some l \<Rightarrow> [DropDisplayList l])
                    @ [NewDisplayList page (length (fitzCalls (freeCurrentPage r)))]\<rparr>)
         \<and> length (fitzCalls (freeCurrentPage r))
             = length (fitzCalls r) + (case currentPageList r of None \<Rightarrow> 0 | Some l \<Rightarrow> 1))
     \<and> (\<not> (page = currentPageNum r \<and> currentPageList r \<noteq> None) \<and> \<not> parses page \<longrightarrow>
           loadTile parses render r page x y zoom
             = (Inl CannotParsePage,
                r\<lparr>currentPageList := None,
                  fitzCalls :=
                    fitzCalls r
                    @ (case currentPageList r of None \<Rightarrow> [] | Some l \<Rightarrow> [DropDisplayList l])\<rparr>))
     \<and> (parses page \<longrightarrow>
           currentPageNum (snd (loadTile parses render r page x y zoom)) = page
         \<and> currentPageList (snd (loadTile parses render r page x y zoom)) \<noteq> None
         \<and> loadTile parses render (snd (loadTile parses render r page x y zoom)) page x' y' zoom'
             = (render page (currentPageList (snd (loadTile parses render r page x y zoom))) x' y' zoom',
                snd (loadTile parses render r page x y zoom)))"
proof -
  have inv: "owns_live_lists (loadTiles parses render r qs)"
    using assms by (rule owns_loadTiles)
  then have "at_most_one_from {} (fitzCalls (loadTiles parses render r qs))"
    by (simp add: owns_live_lists_def at_most_one_live_def)
  then have every: "\<forall>n \<le> length (fitzCalls (loadTiles parses render r qs)).
      card (live_lists (take n (fitzCalls (loadTiles parses render r qs)))) \<le> 1"
    unfolding live_lists_def by (blast intro: at_most_one_from_prefix)
  have again: "parses page \<longrightarrow>
           currentPageNum (snd (loadTile parses render r page x y zoom)) = page
         \<and> currentPageList (snd (loadTile parses render r page x y zoom)) \<noteq> None
         \<and> loadTile parses render (snd (loadTile parses render r page x y zoom)) page x' y' zoom'
             = (render page (currentPageList (snd (loadTile parses render r page x y zoom))) x' y' zoom',
                snd (loadTile parses render r page x y zoom))"
    using loadTile_loaded [of parses page render r x y zoom]
    by (auto intro: loadTile_same_page)
  show ?thesis
    using inv every again loadTile_same_page [of page r parses render x y zoom]
      loadTile_builds [of page r parses render x y zoom]
      loadTile_cannot_parse [of page r parses render x y zoom]
      length_freeCurrentPage [of r]
    by blast
qed

theorem rasterizer_one_live_display_list_witness:
  "owns_live_lists fresh_rasterizer \<and> owns_live_lists page0_rasterizer
   \<and> loadTile three_pages blank_render fresh_rasterizer 0 0 0 2 = (Inr 0, page0_rasterizer)
   \<and> loadTile three_pages blank_render page0_rasterizer 0 1 0 2 = (Inr 0, page0_rasterizer)
   \<and> loadTile three_pages blank_render page0_rasterizer 1 0 0 2
       = (Inr 0, \<lparr>currentPageNum = 1, currentPageList = Some 2,
                   fitzCalls = [NewDisplayList 0 0, DropDisplayList 0, NewDisplayList 1 2]\<rparr>)
   \<and> loadTile three_pages blank_render
        (snd (loadTile three_pages blank_render page0_rasterizer 1 0 0 2)) 1 1 0 2
       = (Inr 0, \<lparr>currentPageNum = 1, currentPageList = Some 2,
                   fitzCalls = [NewDisplayList 0 0, DropDisplayList 0, NewDisplayList 1 2]\<rparr>)
   \<and> loadTile three_pages blank_render page0_rasterizer 5 0 0 2
       = (Inl CannotParsePage,
          \<lparr>currentPageNum = 0, currentPageList = None,
            fitzCalls = [NewDisplayList 0 0, DropDisplayList 0]\<rparr>)
   \<and> owns_live_lists
       (loadTiles three_pages blank_render fresh_rasterizer
          [(0, 0, 0, 2), (0, 1, 0, 2), (1, 0, 0, 2), (5, 0, 0, 2), (1, 0, 0, 2)])"
proof -
  have inv0: "owns_live_lists fresh_rasterizer"
    by (simp add: owns_live_lists_def fresh_rasterizer_def live_lists_def at_most_one_live_def)
  have inv1: "owns_live_lists page0_rasterizer"
    by (simp add: owns_live_lists_def page0_rasterizer_def live_lists_def at_most_one_live_def)
  have fresh: "currentPageNum fresh_rasterizer = 0" "currentPageList fresh_rasterizer = None"
    "fitzCalls fresh_rasterizer = []" "freeCurrentPage fresh_rasterizer = fresh_rasterizer"
    by (simp_all add: fresh_rasterizer_def freeCurrentPage_def)
  have page0: "currentPageNum page0_rasterizer = 0" "currentPageList page0_rasterizer = Some 0"
    "fitzCalls page0_rasterizer = [NewDisplayList 0 0]"
    "length (fitzCalls (freeCurrentPage page0_rasterizer)) = 2"
    by (simp_all add: page0_rasterizer_def freeCurrentPage_def)
  have built: "fresh_rasterizer\<lparr>currentPageNum := 0, currentPageList := Some 0,
      fitzCalls := [NewDisplayList 0 0]\<rparr> = page0_rasterizer"
    "page0_rasterizer\<lparr>currentPageNum := 1, currentPageList := Some 2,
      fitzCalls := [NewDisplayList 0 0, DropDisplayList 0, NewDisplayList 1 2]\<rparr>
      = \<lparr>currentPageNum = 1, currentPageList = Some 2,
          fitzCalls = [NewDisplayList 0 0, DropDisplayList 0, NewDisplayList 1 2]\<rparr>"
    "page0_rasterizer\<lparr>currentPageList := None,
      fitzCalls := [NewDisplayList 0 0, DropDisplayList 0]\<rparr>
      = \<lparr>currentPageNum = 0, currentPageList = None,
          fitzCalls = [NewDisplayList 0 0, DropDisplayList 0]\<rparr>"
    by (simp_all add: fresh_rasterizer_def page0_rasterizer_def)
  have env: "three_pages 0" "three_pages 1" "\<not> three_pages 5"
    "\<And>p l a b z. blank_render p (Some l) a b z = Inr 0"
    by (simp_all add: three_pages_def blank_render_def)
  note first = rasterizer_one_live_display_list
    [OF inv0, where page = 0 and parses = three_pages and render = blank_render
      and x = 0 and y = 0 and zoom = 2 and x' = 1 and y' = 0 and zoom' = 2
      and qs = "[(0, 0, 0, 2), (0, 1, 0, 2), (1, 0, 0, 2), (5, 0, 0, 2), (1, 0, 0, 2)]"]
  note same = rasterizer_one_live_display_list
    [OF inv1, where page = 0 and parses = three_pages and render = blank_render
      and x = 1 and y = 0 and zoom = 2 and x' = 1 and y' = 0 and zoom' = 2 and qs = "[]"]
  note other = rasterizer_one_live_display_list
    [OF inv1, where page = 1 and parses = three_pages and render = blank_render
      and x = 0 and y = 0 and zoom = 2 and x' = 1 and y' = 0 and zoom' = 2 and qs = "[]"]
  note fails = rasterizer_one_live_display_list
    [OF inv1, where page = 5 and parses = three_pages and render = blank_render
      and x = 0 and y = 0 and zoom = 2 and x' = 1 and y' = 0 and zoom' = 2 and qs = "[]"]
  have c1: "loadTile three_pages blank_render fresh_rasterizer 0 0 0 2 = (Inr 0, page0_rasterizer)"
    using first by (simp add: fresh env built)
  have c2: "loadTile three_pages blank_render page0_rasterizer 0 1 0 2 = (Inr 0, page0_rasterizer)"
    using same by (simp add: page0 env)
  have c3: "loadTile three_pages blank_render page0_rasterizer 1 0 0 2
       = (Inr 0, \<lparr>currentPageNum = 1, currentPageList = Some 2,
                   fitzCalls = [NewDisplayList 0 0, DropDisplayList 0, NewDisplayList 1 2]\<rparr>)"
    using other by (simp add: page0 env built)
  have c4: "loadTile three_pages blank_render
        (snd (loadTile three_pages blank_render page0_rasterizer 1 0 0 2)) 1 1 0 2
       = (Inr 0, \<lparr>currentPageNum = 1, currentPageList = Some 2,
                   fitzCalls = [NewDisplayList 0 0, DropDisplayList 0, NewDisplayList 1 2]\<rparr>)"
    using other by (simp add: c3 env)
  have c5: "loadTile three_pages blank_render page0_rasterizer 5 0 0 2
       = (Inl CannotParsePage,
          \<lparr>currentPageNum = 0, currentPageList = None,
            fitzCalls = [NewDisplayList 0 0, DropDisplayList 0]\<rparr>)"
    using fails by (simp add: page0 env built)
  show ?thesis
    using inv0 inv1 first c1 c2 c3 c4 c5 by (simp del: loadTiles.simps)
qed

subsection \<open>Page dimensions\<close>








end
